theory Spec2Isabelle
  imports Main "HOL-Library.Sublist" "HOL-Library.AList"
begin

section \<open>Python values, exceptions and effects\<close>

text \<open>
  The PR triaging agent (\<^verbatim>\<open>agents/pr_triage_agent/agent.py\<close>) is a Python module: three
  tool functions that talk to GitHub, a configuration loader, and the instruction text
  handed to a generative model. The embedding below follows the module top to bottom.

  A raised exception is the left injection of a sum, a returned value the right one.
  \<open>RequestException\<close> stands for \<^verbatim>\<open>requests.exceptions.RequestException\<close> and all of its
  subclasses (an \<^verbatim>\<open>except RequestException\<close> clause catches them all); it carries
  \<^verbatim>\<open>str(e)\<close>, the only thing the module reads from it. \<open>KeyError\<close> carries the missing key
  and \<open>ValueError\<close> its message. \<open>OtherException\<close> stands for every exception class that
  the module and the built-in operations below do not name.
\<close>

datatype exn =
    RequestException string
  | FileNotFoundError
  | KeyError string
  | ValueError string
  | TypeError
  | AttributeError
  | OtherException string

text \<open>
  Values that come out of \<^verbatim>\<open>json.load\<close> and of the GraphQL response. A \<^verbatim>\<open>dict\<close> is an
  association list in insertion order; the first binding of a key is the one in force.
  JSON numbers are restricted to integers (no field read by the module is a float).
  A Python \<^verbatim>\<open>str\<close> is a \<open>string\<close>, the list of its characters; slicing and \<^verbatim>\<open>startswith\<close>
  work on that list.
\<close>

datatype json =
    JNull
  | JBool bool
  | JNum int
  | JStr string
  | JArr "json list"
  | JObj "(string \<times> json) list"

text \<open>
  What the module does to the outside world, in order: a line written by \<^verbatim>\<open>print\<close>, and a
  call \<^verbatim>\<open>post_request(url, payload)\<close>, which sends an HTTP POST to GitHub.
\<close>

datatype event =
    Printed string
  | Post string json

text \<open>
  Modelled from the spec: \<^verbatim>\<open>error_response\<close> is imported from \<^verbatim>\<open>pr_triage_agent.utils\<close>, which
  is not among the sources. The spec has each action "individually reported as
  successful/failed to the caller", so a tool's return value is either the value built by
  \<^verbatim>\<open>error_response(message)\<close>, kept abstract apart from its message, or the dictionary
  with \<^verbatim>\<open>"status": "success"\<close> that the tool builds itself.
\<close>

datatype response =
    error_response string
  | success "(string \<times> json) list"

type_synonym 'a raised = "exn + 'a"

text \<open>Sequencing: the second statement runs only if the first did not raise.\<close>

definition and_then :: "'a raised \<Rightarrow> ('a \<Rightarrow> 'b raised) \<Rightarrow> 'b raised" where
  "and_then r f = (case r of Inl e \<Rightarrow> Inl e | Inr v \<Rightarrow> f v)"

subsection \<open>Built-in operations\<close>

text \<open>Truth value of a Python object, as \<^verbatim>\<open>if x:\<close> and \<^verbatim>\<open>not x\<close> take it.\<close>

fun truthy :: "json \<Rightarrow> bool" where
  "truthy JNull = False"
| "truthy (JBool b) = b"
| "truthy (JNum n) = (n \<noteq> 0)"
| "truthy (JStr s) = (s \<noteq> [])"
| "truthy (JArr xs) = (xs \<noteq> [])"
| "truthy (JObj kvs) = (kvs \<noteq> [])"

text \<open>\<^verbatim>\<open>x.get(key, default)\<close>: only a \<^verbatim>\<open>dict\<close> has the method.\<close>

fun get :: "json \<Rightarrow> string \<Rightarrow> json \<Rightarrow> json raised" where
  "get (JObj kvs) key dflt =
     Inr (case map_of kvs key of None \<Rightarrow> dflt | Some v \<Rightarrow> v)"
| "get _ key dflt = Inl AttributeError"

text \<open>\<^verbatim>\<open>x[key]\<close> with a string key: a missing key raises \<^verbatim>\<open>KeyError\<close>, and a value that
  is not a \<^verbatim>\<open>dict\<close> cannot be indexed by a string.\<close>

fun getitem :: "json \<Rightarrow> string \<Rightarrow> json raised" where
  "getitem (JObj kvs) key =
     (case map_of kvs key of None \<Rightarrow> Inl (KeyError key) | Some v \<Rightarrow> Inr v)"
| "getitem _ key = Inl TypeError"

text \<open>\<^verbatim>\<open>x[key] = v\<close> on a \<^verbatim>\<open>dict\<close>: an existing key keeps its place, a new one goes last.\<close>

definition setitem :: "(string \<times> json) list \<Rightarrow> string \<Rightarrow> json \<Rightarrow> (string \<times> json) list" where
  "setitem kvs key v = AList.update key v kvs"

text \<open>\<^verbatim>\<open>sub in s\<close> on strings.\<close>

fun substring :: "string \<Rightarrow> string \<Rightarrow> bool" where
  "substring sub [] = (sub = [])"
| "substring sub (c # cs) = (prefix sub (c # cs) \<or> substring sub cs)"

text \<open>\<^verbatim>\<open>key in x\<close> for a string \<open>key\<close>: key membership in a \<^verbatim>\<open>dict\<close>, element membership
  in a \<^verbatim>\<open>list\<close>, substring test on a \<^verbatim>\<open>str\<close>; anything else is not a container.\<close>

fun contains :: "json \<Rightarrow> string \<Rightarrow> bool raised" where
  "contains (JObj kvs) key = Inr (map_of kvs key \<noteq> None)"
| "contains (JArr xs) key = Inr (JStr key \<in> set xs)"
| "contains (JStr s) key = Inr (substring key s)"
| "contains _ key = Inl TypeError"

text \<open>\<^verbatim>\<open>x.startswith(p)\<close>: only a \<^verbatim>\<open>str\<close> has the method.\<close>

fun startswith :: "json \<Rightarrow> string \<Rightarrow> bool raised" where
  "startswith (JStr s) p = Inr (prefix p s)"
| "startswith _ p = Inl AttributeError"


text \<open>\<^verbatim>\<open>str(n)\<close> of an integer, as an f-string formats it.\<close>

function str_nat :: "nat \<Rightarrow> string" where
  "str_nat n =
     (if n < 10 then [''0123456789'' ! n]
      else str_nat (n div 10) @ [''0123456789'' ! (n mod 10)])"
  by pat_completeness auto
termination
  by (relation "measure id") auto

definition str_int :: "int \<Rightarrow> string" where
  "str_int i = (if i < 0 then CHR ''-'' # str_nat (nat (- i)) else str_nat (nat i))"


section \<open>The instruction template and the repository configuration\<close>













section \<open>The tools\<close>

text \<open>
  \<^verbatim>\<open>GITHUB_BASE_URL\<close>, \<^verbatim>\<open>OWNER\<close> and \<^verbatim>\<open>REPO\<close> are imported from \<^verbatim>\<open>pr_triage_agent.settings\<close>,
  which is not among the sources: they are the fields of a parameter.
\<close>

record settings =
  GITHUB_BASE_URL :: string
  OWNER :: string
  REPO :: string

subsection \<open>\<^verbatim>\<open>get_pull_request_details\<close>\<close>

definition pull_request_query :: string where
  \<open>pull_request_query =
     ''\<newline>'' @
     ''    query($owner: String!, $repo: String!, $prNumber: Int!) {\<newline>'' @
     ''      repository(owner: $owner, name: $repo) {\<newline>'' @
     ''        pullRequest(number: $prNumber) {\<newline>'' @
     ''          id\<newline>'' @
     ''          number\<newline>'' @
     ''          title\<newline>'' @
     ''          body\<newline>'' @
     ''          state\<newline>'' @
     ''          author {\<newline>'' @
     ''            login\<newline>'' @
     ''          }\<newline>'' @
     ''          labels(last: 10) {\<newline>'' @
     ''            nodes {\<newline>'' @
     ''              name\<newline>'' @
     ''            }\<newline>'' @
     ''          }\<newline>'' @
     ''          files(last: 50) {\<newline>'' @
     ''            nodes {\<newline>'' @
     ''              path\<newline>'' @
     ''            }\<newline>'' @
     ''          }\<newline>'' @
     ''          comments(last: 50) {\<newline>'' @
     ''            nodes {\<newline>'' @
     ''              id\<newline>'' @
     ''              body\<newline>'' @
     ''              createdAt\<newline>'' @
     ''              author {\<newline>'' @
     ''                login\<newline>'' @
     ''              }\<newline>'' @
     ''            }\<newline>'' @
     ''          }\<newline>'' @
     ''          commits(last: 50) {\<newline>'' @
     ''            nodes {\<newline>'' @
     ''              commit {\<newline>'' @
     ''                url\<newline>'' @
     ''                message\<newline>'' @
     ''              }\<newline>'' @
     ''            }\<newline>'' @
     ''          }\<newline>'' @
     ''          statusCheckRollup {\<newline>'' @
     ''            state\<newline>'' @
     ''            contexts(last: 20) {\<newline>'' @
     ''              nodes {\<newline>'' @
     ''                ... on StatusContext {\<newline>'' @
     ''                  context\<newline>'' @
     ''                  state\<newline>'' @
     ''                  targetUrl\<newline>'' @
     ''                }\<newline>'' @
     ''                ... on CheckRun {\<newline>'' @
     ''                  name\<newline>'' @
     ''                  status\<newline>'' @
     ''                  conclusion\<newline>'' @
     ''                  detailsUrl\<newline>'' @
     ''                }\<newline>'' @
     ''              }\<newline>'' @
     ''            }\<newline>'' @
     ''          }\<newline>'' @
     ''        }\<newline>'' @
     ''      }\<newline>'' @
     ''    }\<newline>'' @
     ''  ''\<close>


definition variables :: "settings \<Rightarrow> int \<Rightarrow> (string \<times> json) list" where
  "variables st pr_number =
     [(''owner'', JStr (OWNER st)), (''repo'', JStr (REPO st)), (''prNumber'', JNum pr_number)]"

definition pull_url :: "settings \<Rightarrow> int \<Rightarrow> string" where
  "pull_url st pr_number =
     GITHUB_BASE_URL st @ ''/repos/'' @ OWNER st @ ''/'' @ REPO st @ ''/pulls/'' @ str_int pr_number"

text \<open>The condition of the list comprehension, negated:
  \<^verbatim>\<open>commit_node["commit"]["message"].startswith("Merge branch 'main' into")\<close>.\<close>

definition is_main_merge :: "json \<Rightarrow> bool raised" where
  "is_main_merge commit_node =
     and_then (getitem commit_node ''commit'') (\<lambda>commit.
     and_then (getitem commit ''message'') (\<lambda>message.
     startswith message ''Merge branch 'main' into''))"

text \<open>The list comprehension: the nodes are tested from left to right, and the first test
  that raises ends it.\<close>

fun filtered_commits :: "json list \<Rightarrow> json list raised" where
  "filtered_commits [] = Inr []"
| "filtered_commits (commit_node # rest) =
     and_then (is_main_merge commit_node) (\<lambda>merge.
     and_then (filtered_commits rest) (\<lambda>kept.
     Inr (if \<not> merge then commit_node # kept else kept)))"

text \<open>\<^verbatim>\<open>pr["commits"]["nodes"] = v\<close>.\<close>

fun set_commit_nodes :: "json \<Rightarrow> json \<Rightarrow> json raised" where
  "set_commit_nodes (JObj kvs) v =
     and_then (getitem (JObj kvs) ''commits'') (\<lambda>commits.
       case commits of
         JObj cs \<Rightarrow> Inr (JObj (setitem kvs ''commits'' (JObj (setitem cs ''nodes'' v))))
       | _ \<Rightarrow> Inl TypeError)"
| "set_commit_nodes _ v = Inl TypeError"

text \<open>
  "Filter out main merge commits": the statements from \<^verbatim>\<open>original_commits = ...\<close> to the
  assignment of the filtered list. Iterating over a non-empty \<^verbatim>\<open>dict\<close> or \<^verbatim>\<open>str\<close> yields
  strings, which cannot be indexed by \<^verbatim>\<open>"commit"\<close>, and a number or \<^verbatim>\<open>True\<close> cannot be
  iterated over: all of these raise \<^verbatim>\<open>TypeError\<close>.
\<close>

definition main_merges_removed :: "json \<Rightarrow> json raised" where
  "main_merges_removed pr =
     and_then (get pr ''commits'' (JObj [])) (\<lambda>commits.
     and_then (get commits ''nodes'' (JObj [])) (\<lambda>original_commits.
     if truthy original_commits then
       (case original_commits of
          JArr nodes \<Rightarrow>
            and_then (filtered_commits nodes) (\<lambda>kept. set_commit_nodes pr (JArr kept))
        | _ \<Rightarrow> Inl TypeError)
     else Inr pr))"

text \<open>\<^verbatim>\<open>response.get("data", {}).get("repository", {}).get("pullRequest")\<close>.\<close>

definition pullRequest :: "json \<Rightarrow> json raised" where
  "pullRequest response =
     and_then (get response ''data'' (JObj [])) (\<lambda>data.
     and_then (get data ''repository'' (JObj [])) (\<lambda>repository.
     get repository ''pullRequest'' JNull))"

text \<open>
  From the GraphQL response to the pull request whose diff is fetched next: either the
  function returns early (left), or it goes on with the pull request (right).
  \<open>str_value\<close> is the built-in \<^verbatim>\<open>str\<close> on the value of \<^verbatim>\<open>response["errors"]\<close>.
\<close>

definition pull_request_of :: "(json \<Rightarrow> string) \<Rightarrow> int \<Rightarrow> json \<Rightarrow> (response + json) raised" where
  "pull_request_of str_value pr_number response =
     and_then (contains response ''errors'') (\<lambda>has_errors.
     if has_errors then
       and_then (getitem response ''errors'') (\<lambda>errors.
       Inr (Inl (error_response (str_value errors))))
     else
       and_then (pullRequest response) (\<lambda>pr.
       if \<not> truthy pr then
         Inr (Inl (error_response (''Pull Request #'' @ str_int pr_number @ '' not found.'')))
       else
         and_then (main_merges_removed pr) (\<lambda>pr. Inr (Inr pr))))"

text \<open>\<^verbatim>\<open>pr["diff"] = v\<close>.\<close>

fun set_diff :: "json \<Rightarrow> json \<Rightarrow> json raised" where
  "set_diff (JObj kvs) v = Inr (JObj (setitem kvs ''diff'' v))"
| "set_diff _ v = Inl TypeError"

text \<open>The \<^verbatim>\<open>try\<close> block. \<^verbatim>\<open>run_graphql_query\<close> and \<^verbatim>\<open>get_diff\<close> (from \<^verbatim>\<open>pr_triage_agent.utils\<close>)
  are parameters: what GitHub answers, or the exception the request raises.\<close>

definition fetch_details ::
  "settings \<Rightarrow> (string \<Rightarrow> (string \<times> json) list \<Rightarrow> json raised) \<Rightarrow> (string \<Rightarrow> string raised) \<Rightarrow>
   (json \<Rightarrow> string) \<Rightarrow> int \<Rightarrow> response raised" where
  "fetch_details st run_graphql_query get_diff str_value pr_number =
     and_then (run_graphql_query pull_request_query (variables st pr_number)) (\<lambda>response.
     and_then (pull_request_of str_value pr_number response) (\<lambda>found.
     case found of
       Inl early \<Rightarrow> Inr early
     | Inr pr \<Rightarrow>
         and_then (get_diff (pull_url st pr_number)) (\<lambda>diff.
         and_then (set_diff pr (JStr (take 10000 diff))) (\<lambda>pr.
         Inr (success [(''status'', JStr ''success''), (''pull_request'', pr)])))))"

text \<open>The handler \<^verbatim>\<open>except requests.exceptions.RequestException as e\<close> of the three tools;
  \<open>message\<close> builds the argument of \<^verbatim>\<open>error_response\<close> from \<^verbatim>\<open>str(e)\<close>.\<close>

definition except_RequestException :: "(string \<Rightarrow> string) \<Rightarrow> response raised \<Rightarrow> response raised" where
  "except_RequestException message r =
     (case r of
        Inl (RequestException e) \<Rightarrow> Inr (error_response (message e))
      | _ \<Rightarrow> r)"

definition get_pull_request_details ::
  "settings \<Rightarrow> (string \<Rightarrow> (string \<times> json) list \<Rightarrow> json raised) \<Rightarrow> (string \<Rightarrow> string raised) \<Rightarrow>
   (json \<Rightarrow> string) \<Rightarrow> int \<Rightarrow> event list \<times> response raised" where
  "get_pull_request_details st run_graphql_query get_diff str_value pr_number =
     ([Printed (''Fetching details for PR #'' @ str_int pr_number @ '' from '' @ OWNER st
                @ ''/'' @ REPO st)],
      except_RequestException (\<lambda>e. e)
        (fetch_details st run_graphql_query get_diff str_value pr_number))"

subsection \<open>\<^verbatim>\<open>add_label_to_pr\<close> and \<^verbatim>\<open>add_comment_to_pr\<close>\<close>

definition issue_url :: "settings \<Rightarrow> int \<Rightarrow> string \<Rightarrow> string" where
  "issue_url st pr_number kind =
     GITHUB_BASE_URL st @ ''/repos/'' @ OWNER st @ ''/'' @ REPO st @ ''/issues/''
       @ str_int pr_number @ ''/'' @ kind"

text \<open>
  \<open>ALLOWED_LABELS\<close> is the second component of \<^verbatim>\<open>get_repo_config(REPO)\<close>, whatever
  \<^verbatim>\<open>"allowed_labels"\<close> is in the config file, and \<^verbatim>\<open>label not in ALLOWED_LABELS\<close> is Python's
  \<^verbatim>\<open>in\<close> on it. \<^verbatim>\<open>post_request\<close> (from \<^verbatim>\<open>pr_triage_agent.utils\<close>) is a parameter; the call
  is recorded as a \<open>Post\<close> event whether or not it raises.
\<close>

definition add_label_to_pr ::
  "settings \<Rightarrow> json \<Rightarrow> (string \<Rightarrow> json \<Rightarrow> json raised) \<Rightarrow> int \<Rightarrow> string \<Rightarrow>
   event list \<times> response raised" where
  "add_label_to_pr st ALLOWED_LABELS post_request pr_number label =
     (let attempting = Printed (''Attempting to add label '' @ [CHR 0x27] @ label @ [CHR 0x27]
                                @ '' to PR #'' @ str_int pr_number)
      in case contains ALLOWED_LABELS label of
           Inl e \<Rightarrow> ([attempting], Inl e)
         | Inr False \<Rightarrow>
             ([attempting],
              Inr (error_response (''Error: Label '' @ [CHR 0x27] @ label @ [CHR 0x27]
                                   @ '' is not an allowed label. Will not apply.'')))
         | Inr True \<Rightarrow>
             (let label_url = issue_url st pr_number ''labels'';
                  label_payload = JArr [JStr label]
              in ([attempting, Post label_url label_payload],
                  except_RequestException (\<lambda>e. ''Error: '' @ e)
                    (and_then (post_request label_url label_payload) (\<lambda>response.
                     Inr (success [(''status'', JStr ''success''),
                                   (''applied_label'', JStr label),
                                   (''response'', response)]))))))"

definition add_comment_to_pr ::
  "settings \<Rightarrow> (string \<Rightarrow> json \<Rightarrow> json raised) \<Rightarrow> int \<Rightarrow> string \<Rightarrow> event list \<times> response raised" where
  "add_comment_to_pr st post_request pr_number comment =
     (let url = issue_url st pr_number ''comments'';
          payload = JObj [(''body'', JStr comment)]
      in ([Printed (''Attempting to add comment '' @ [CHR 0x27] @ comment @ [CHR 0x27]
                    @ '' to issue #'' @ str_int pr_number),
           Post url payload],
          except_RequestException (\<lambda>e. ''Error: '' @ e)
            (and_then (post_request url payload) (\<lambda>response.
             Inr (success [(''status'', JStr ''success''), (''added_comment'', JStr comment)])))))"

section \<open>The instruction of the agent\<close>

text \<open>
  \<^verbatim>\<open>template.format(**kwargs)\<close> with keyword arguments only, whose values are given already
  converted by \<^verbatim>\<open>str\<close>. The template is read from left to right: \<open>{{\<close> and \<open>}}\<close> stand for
  one brace, a single \<open>}\<close> is an error, and \<open>{name}\<close> is replaced by the argument of that
  name, copied as it is (its own braces are not looked at again). The result is \<open>None\<close> where
  the template uses a form of replacement field that is left out here: a conversion
  (\<open>!\<close>), a format specification (\<open>:\<close>), an index (\<open>[\<close>), an attribute (\<open>.\<close>), or a
  positional field (an empty or numeric name).
\<close>

definition emit :: "string \<Rightarrow> string raised option \<Rightarrow> string raised option" where
  "emit s r = map_option (map_sum id ((@) s)) r"

text \<open>A field name that is looked up among the keyword arguments.\<close>

definition plain_name :: "string \<Rightarrow> bool" where
  "plain_name name \<longleftrightarrow>
     name \<noteq> [] \<and> CHR ''.'' \<notin> set name \<and> \<not> list_all (\<lambda>x. x \<in> set ''0123456789'') name"

text \<open>The scanner: \<open>None\<close> while it reads literal text, \<open>Some name\<close> while it reads the name of
  a replacement field after its opening brace.\<close>

fun format_from :: "string option \<Rightarrow> string \<Rightarrow> (string \<times> string) list \<Rightarrow> string raised option" where
  "format_from None [] kwargs = Some (Inr [])"
| "format_from None (c # cs) kwargs =
     (if c = CHR ''}'' then
        (case cs of
           [] \<Rightarrow> Some (Inl (ValueError ''Single '}' encountered in format string''))
         | d # rest \<Rightarrow>
             if d = CHR ''}'' then emit [c] (format_from None rest kwargs)
             else Some (Inl (ValueError ''Single '}' encountered in format string'')))
      else if c = CHR ''{'' then
        (case cs of
           [] \<Rightarrow> Some (Inl (ValueError ''Single '{' encountered in format string''))
         | d # rest \<Rightarrow>
             if d = CHR ''{'' then emit [c] (format_from None rest kwargs)
             else format_from (Some []) cs kwargs)
      else emit [c] (format_from None cs kwargs))"
| "format_from (Some name) [] kwargs =
     Some (Inl (ValueError ''expected '}' before end of string''))"
| "format_from (Some name) (c # cs) kwargs =
     (if c = CHR ''{'' then Some (Inl (ValueError ''unexpected '{' in field name''))
      else if c = CHR ''['' \<or> c = CHR '':'' \<or> c = CHR ''!'' then None
      else if c = CHR ''}'' then
        (if \<not> plain_name name then None
         else
           (case map_of kwargs name of
              None \<Rightarrow> Some (Inl (KeyError name))
            | Some v \<Rightarrow> emit v (format_from None cs kwargs)))
      else format_from (Some (name @ [c])) cs kwargs)"

definition format :: "string \<Rightarrow> (string \<times> string) list \<Rightarrow> string raised option" where
  "format s kwargs = format_from None s kwargs"



section \<open>Vocabulary of the statements\<close>


text \<open>The commit list of a pull request, \<^verbatim>\<open>pr["commits"]["nodes"]\<close>, where it is a list; a pull
  request without one has no commits.\<close>

definition commit_nodes :: "json \<Rightarrow> json list" where
  "commit_nodes pr =
     (case and_then (get pr ''commits'' (JObj [])) (\<lambda>commits. get commits ''nodes'' (JObj [])) of
        Inr (JArr nodes) \<Rightarrow> nodes
      | _ \<Rightarrow> [])"



text \<open>Formatting returned a string.\<close>

definition succeeds :: "string raised option \<Rightarrow> bool" where
  "succeeds r = (case r of Some (Inr out) \<Rightarrow> True | _ \<Rightarrow> False)"

subsection \<open>A small world to run the module in\<close>



definition example_settings :: settings where
  "example_settings =
     \<lparr>GITHUB_BASE_URL = ''https://api.github.com'', OWNER = ''Universal-Commerce-Protocol'',
      REPO = ''ucp''\<rparr>"

definition commit_node :: "string \<Rightarrow> json" where
  "commit_node message =
     JObj [(''commit'', JObj [(''url'', JStr ''https://github.com/c''), (''message'', JStr message)])]"

definition example_response :: json where
  "example_response =
     JObj [(''data'', JObj [(''repository'', JObj [(''pullRequest'',
       JObj [(''number'', JNum 42),
             (''state'', JStr ''OPEN''),
             (''commits'', JObj [(''nodes'',
                JArr [commit_node ''Add cart schema'',
                      commit_node ''Merge branch 'main' into cart'',
                      commit_node ''Fix typo''])])])])])]"

definition example_pull_request :: json where
  "example_pull_request =
     JObj [(''number'', JNum 42),
           (''state'', JStr ''OPEN''),
           (''commits'', JObj [(''nodes'',
              JArr [commit_node ''Add cart schema'', commit_node ''Fix typo''])]),
           (''diff'', JStr (replicate 10000 (CHR ''+'')))]"

definition example_graphql :: "string \<Rightarrow> (string \<times> json) list \<Rightarrow> json raised" where
  "example_graphql query vars = Inr example_response"

definition example_get_diff :: "string \<Rightarrow> string raised" where
  "example_get_diff url = Inr (replicate 10050 (CHR ''+''))"

definition request_fails :: "'a raised" where
  "request_fails = Inl (RequestException ''Connection refused'')"



definition example_labels :: json where
  "example_labels = JArr [JStr ''documentation'', JStr ''infrastructure'']"



section \<open>Basic facts\<close>

declare str_nat.simps [simp del]

lemma and_then_Inl [simp]: "and_then (Inl e) f = Inl e"
  by (simp add: and_then_def)

lemma and_then_Inr [simp]: "and_then (Inr v) f = f v"
  by (simp add: and_then_def)




lemma and_then_eq_Inr:
  "and_then r f = Inr y \<longleftrightarrow> (\<exists>v. r = Inr v \<and> f v = Inr y)"
  by (cases r) simp_all

lemma and_then_eq_Inl:
  "and_then r f = Inl e \<longleftrightarrow> r = Inl e \<or> (\<exists>v. r = Inr v \<and> f v = Inl e)"
  by (cases r) simp_all

lemma except_RequestException_simps [simp]:
  "except_RequestException msg (Inl (RequestException e)) = Inr (error_response (msg e))"
  "except_RequestException msg (Inr v) = Inr v"
  by (simp_all add: except_RequestException_def)

lemma except_RequestException_success:
  "except_RequestException msg r = Inr (success d) \<longleftrightarrow> r = Inr (success d)"
  by (auto simp: except_RequestException_def split: sum.splits exn.splits)

lemma map_of_setitem_same [simp]: "map_of (setitem kvs key v) key = Some v"
  by (simp add: setitem_def update_conv')

lemma map_of_setitem_other [simp]: "key' \<noteq> key \<Longrightarrow> map_of (setitem kvs key v) key' = map_of kvs key'"
  by (simp add: setitem_def update_conv')

section \<open>Rejecting labels outside the taxonomy\<close>

text \<open>
  Claim C1. Whatever the pull-request number and the label: when the label is not in
  \<^verbatim>\<open>ALLOWED_LABELS\<close> (Python's \<^verbatim>\<open>label not in ALLOWED_LABELS\<close>; for a taxonomy that is a list
  of names, the label is none of them), \<^verbatim>\<open>add_label_to_pr\<close> returns the error response
  "Label ... is not an allowed label. Will not apply." and calls \<^verbatim>\<open>post_request\<close> not at
  all. Conversely, every labeling request it sends carries exactly the given label, and
  that label is in \<^verbatim>\<open>ALLOWED_LABELS\<close>.
\<close>

theorem add_label_to_pr_rejects_non_member:
  "(contains ALLOWED_LABELS label = Inr False \<longrightarrow>
      snd (add_label_to_pr st ALLOWED_LABELS post_request pr_number label) =
        Inr (error_response (''Error: Label '' @ [CHR 0x27] @ label @ [CHR 0x27]
                             @ '' is not an allowed label. Will not apply.''))
      \<and> Post url payload \<notin> set (fst (add_label_to_pr st ALLOWED_LABELS post_request pr_number label)))
   \<and> (ALLOWED_LABELS = JArr names \<and> JStr label \<notin> set names \<longrightarrow>
        contains ALLOWED_LABELS label = Inr False)
   \<and> (Post url payload \<in> set (fst (add_label_to_pr st ALLOWED_LABELS post_request pr_number label)) \<longrightarrow>
        contains ALLOWED_LABELS label = Inr True \<and> payload = JArr [JStr label])"
  by (auto simp: add_label_to_pr_def Let_def split: sum.splits bool.splits)

theorem add_label_to_pr_rejects_non_member_witness:
  "contains example_labels ''wontfix'' = Inr False
   \<and> add_label_to_pr example_settings example_labels (\<lambda>url payload. Inr JNull) 42 ''wontfix'' =
       ([Printed ''Attempting to add label 'wontfix' to PR #42''],
        Inr (error_response ''Error: Label 'wontfix' is not an allowed label. Will not apply.''))
   \<and> Post (issue_url example_settings 42 ''labels'') (JArr [JStr ''wontfix''])
       \<notin> set (fst (add_label_to_pr example_settings example_labels (\<lambda>url payload. Inr JNull) 42
                      ''wontfix''))
   \<and> Post (issue_url example_settings 42 ''labels'') (JArr [JStr ''infrastructure''])
       \<in> set (fst (add_label_to_pr example_settings example_labels (\<lambda>url payload. Inr JNull) 42
                      ''infrastructure''))
   \<and> contains example_labels ''infrastructure'' = Inr True"
proof -
  have no: "example_labels = JArr [JStr ''documentation'', JStr ''infrastructure'']
            \<and> JStr ''wontfix'' \<notin> set [JStr ''documentation'', JStr ''infrastructure'']"
    by (simp add: example_labels_def)
  have printed: "fst (add_label_to_pr example_settings example_labels (\<lambda>url payload. Inr JNull) 42
                        ''wontfix'') \<noteq> []
                 \<and> hd (fst (add_label_to_pr example_settings example_labels (\<lambda>url payload. Inr JNull) 42
                        ''wontfix'')) = Printed ''Attempting to add label 'wontfix' to PR #42''"
    by (simp add: add_label_to_pr_def Let_def example_labels_def str_int_def str_nat.simps)
  have posted: "Post (issue_url example_settings 42 ''labels'') (JArr [JStr ''infrastructure''])
       \<in> set (fst (add_label_to_pr example_settings example_labels (\<lambda>url payload. Inr JNull) 42
                      ''infrastructure''))"
    by (simp add: add_label_to_pr_def Let_def example_labels_def)
  note rejected = add_label_to_pr_rejects_non_member
    [where ALLOWED_LABELS = example_labels and label = "''wontfix''" and st = example_settings
       and post_request = "\<lambda>url payload. Inr JNull" and pr_number = 42
       and url = "issue_url example_settings 42 ''labels''" and payload = "JArr [JStr ''wontfix'']"
       and names = "[JStr ''documentation'', JStr ''infrastructure'']"]
  note applied = add_label_to_pr_rejects_non_member
    [where ALLOWED_LABELS = example_labels and label = "''infrastructure''" and st = example_settings
       and post_request = "\<lambda>url payload. Inr JNull" and pr_number = 42
       and url = "issue_url example_settings 42 ''labels''"
       and payload = "JArr [JStr ''infrastructure'']"]
  from rejected no have c: "contains example_labels ''wontfix'' = Inr False"
    by blast
  with rejected have r:
    "snd (add_label_to_pr example_settings example_labels (\<lambda>url payload. Inr JNull) 42 ''wontfix'') =
       Inr (error_response ''Error: Label 'wontfix' is not an allowed label. Will not apply.'')"
    and n: "Post (issue_url example_settings 42 ''labels'') (JArr [JStr ''wontfix''])
       \<notin> set (fst (add_label_to_pr example_settings example_labels (\<lambda>url payload. Inr JNull) 42
                      ''wontfix''))"
    by simp_all
  have whole: "add_label_to_pr example_settings example_labels (\<lambda>url payload. Inr JNull) 42 ''wontfix'' =
       ([Printed ''Attempting to add label 'wontfix' to PR #42''],
        Inr (error_response ''Error: Label 'wontfix' is not an allowed label. Will not apply.''))"
    using r c by (simp add: add_label_to_pr_def Let_def str_int_def str_nat.simps)
  from applied posted have "contains example_labels ''infrastructure'' = Inr True"
    by blast
  with c whole n posted show ?thesis by blast
qed

section \<open>Missing repository configuration\<close>








section \<open>Transport errors\<close>

lemma pull_request_of_early:
  "pull_request_of str_value pr_number response = Inr (Inl early) \<Longrightarrow>
     \<exists>message. early = error_response message"
  unfolding pull_request_of_def
  by (auto simp: and_then_eq_Inr split: if_splits)

lemma is_main_merge_commit_node:
  "is_main_merge (commit_node message) = Inr (prefix ''Merge branch 'main' into'' message)"
  by (simp add: is_main_merge_def commit_node_def)

lemma example_pullRequest:
  "pullRequest example_response =
     Inr (JObj [(''number'', JNum 42),
             (''state'', JStr ''OPEN''),
             (''commits'', JObj [(''nodes'',
                JArr [commit_node ''Add cart schema'',
                      commit_node ''Merge branch 'main' into cart'',
                      commit_node ''Fix typo''])])])"
  by (simp add: pullRequest_def example_response_def)

text \<open>
  Claim C7. When the request a tool makes raises a \<^verbatim>\<open>RequestException\<close>, the tool does not
  raise: it returns \<^verbatim>\<open>error_response\<close> of the exception's text (prefixed with "Error: " by
  the two writing tools), and never a success. For \<^verbatim>\<open>get_pull_request_details\<close> this holds
  for the GraphQL query and for the diff request that follows it; for \<^verbatim>\<open>add_label_to_pr\<close>
  the request is made when the label is allowed.
\<close>

theorem transport_errors_become_error_responses:
  "(run_graphql_query pull_request_query (variables st pr_number) = Inl (RequestException e) \<longrightarrow>
      snd (get_pull_request_details st run_graphql_query get_diff str_value pr_number) =
        Inr (error_response e))
   \<and> (run_graphql_query pull_request_query (variables st pr_number) = Inr response
        \<and> pull_request_of str_value pr_number response = Inr (Inr pr)
        \<and> get_diff (pull_url st pr_number) = Inl (RequestException e) \<longrightarrow>
      snd (get_pull_request_details st run_graphql_query get_diff str_value pr_number) =
        Inr (error_response e))
   \<and> (get_diff (pull_url st pr_number) = Inl (RequestException e) \<longrightarrow>
      snd (get_pull_request_details st run_graphql_query get_diff str_value pr_number) \<noteq>
        Inr (success d))
   \<and> (contains ALLOWED_LABELS label = Inr True
        \<and> post_request (issue_url st pr_number ''labels'') (JArr [JStr label]) = Inl (RequestException e) \<longrightarrow>
      snd (add_label_to_pr st ALLOWED_LABELS post_request pr_number label) =
        Inr (error_response (''Error: '' @ e)))
   \<and> (post_request (issue_url st pr_number ''labels'') (JArr [JStr label]) = Inl (RequestException e) \<longrightarrow>
      snd (add_label_to_pr st ALLOWED_LABELS post_request pr_number label) \<noteq> Inr (success d))
   \<and> (post_request (issue_url st pr_number ''comments'') (JObj [(''body'', JStr comment)])
          = Inl (RequestException e) \<longrightarrow>
      snd (add_comment_to_pr st post_request pr_number comment) =
        Inr (error_response (''Error: '' @ e)))"
proof -
  have a: "run_graphql_query pull_request_query (variables st pr_number) = Inl (RequestException e) \<longrightarrow>
      snd (get_pull_request_details st run_graphql_query get_diff str_value pr_number) =
        Inr (error_response e)"
    by (simp add: get_pull_request_details_def fetch_details_def)
  have b: "run_graphql_query pull_request_query (variables st pr_number) = Inr response
        \<and> pull_request_of str_value pr_number response = Inr (Inr pr)
        \<and> get_diff (pull_url st pr_number) = Inl (RequestException e) \<longrightarrow>
      snd (get_pull_request_details st run_graphql_query get_diff str_value pr_number) =
        Inr (error_response e)"
    by (simp add: get_pull_request_details_def fetch_details_def)
  have c: "get_diff (pull_url st pr_number) = Inl (RequestException e) \<longrightarrow>
      snd (get_pull_request_details st run_graphql_query get_diff str_value pr_number) \<noteq>
        Inr (success d)"
    by (auto simp: get_pull_request_details_def fetch_details_def except_RequestException_success
          and_then_def split: sum.splits dest: pull_request_of_early)
  have d: "contains ALLOWED_LABELS label = Inr True
        \<and> post_request (issue_url st pr_number ''labels'') (JArr [JStr label]) = Inl (RequestException e) \<longrightarrow>
      snd (add_label_to_pr st ALLOWED_LABELS post_request pr_number label) =
        Inr (error_response (''Error: '' @ e))"
    by (simp add: add_label_to_pr_def Let_def)
  have e: "post_request (issue_url st pr_number ''labels'') (JArr [JStr label]) = Inl (RequestException e) \<longrightarrow>
      snd (add_label_to_pr st ALLOWED_LABELS post_request pr_number label) \<noteq> Inr (success d)"
    by (auto simp: add_label_to_pr_def Let_def split: sum.splits bool.splits)
  have f: "post_request (issue_url st pr_number ''comments'') (JObj [(''body'', JStr comment)])
          = Inl (RequestException e) \<longrightarrow>
      snd (add_comment_to_pr st post_request pr_number comment) =
        Inr (error_response (''Error: '' @ e))"
    by (simp add: add_comment_to_pr_def Let_def)
  from a b c d e f show ?thesis by blast
qed

theorem transport_errors_become_error_responses_witness:
  "snd (get_pull_request_details example_settings (\<lambda>query vars. request_fails) example_get_diff
          (\<lambda>v. ''errors'') 42) = Inr (error_response ''Connection refused'')
   \<and> snd (get_pull_request_details example_settings example_graphql (\<lambda>url. request_fails)
          (\<lambda>v. ''errors'') 42) = Inr (error_response ''Connection refused'')
   \<and> snd (add_label_to_pr example_settings example_labels (\<lambda>url payload. request_fails) 42
          ''documentation'') = Inr (error_response ''Error: Connection refused'')
   \<and> snd (add_comment_to_pr example_settings (\<lambda>url payload. request_fails) 42 ''Thank you!'') =
       Inr (error_response ''Error: Connection refused'')"
proof -
  have g: "example_graphql pull_request_query (variables example_settings 42) = Inr example_response"
    by (simp add: example_graphql_def)
  have c: "contains example_response ''errors'' = Inr False"
    by (simp add: example_response_def)
  have p: "pull_request_of (\<lambda>v. ''errors'') 42 example_response =
             Inr (Inr (JObj [(''number'', JNum 42),
                             (''state'', JStr ''OPEN''),
                             (''commits'', JObj [(''nodes'',
                                JArr [commit_node ''Add cart schema'', commit_node ''Fix typo''])])]))"
    using c
    by (simp add: pull_request_of_def example_pullRequest main_merges_removed_def
          is_main_merge_commit_node setitem_def)
  have m: "contains example_labels ''documentation'' = Inr True"
    by (simp add: example_labels_def)
  have f: "(request_fails :: json raised) = Inl (RequestException ''Connection refused'')"
          "(request_fails :: string raised) = Inl (RequestException ''Connection refused'')"
    by (simp_all add: request_fails_def)
  note query = transport_errors_become_error_responses
    [where run_graphql_query = "\<lambda>query vars. request_fails" and st = example_settings
       and pr_number = 42 and e = "''Connection refused''" and get_diff = example_get_diff
       and str_value = "\<lambda>v. ''errors''"]
  note rest = transport_errors_become_error_responses
    [where run_graphql_query = example_graphql and st = example_settings
       and pr_number = 42 and e = "''Connection refused''" and get_diff = "\<lambda>url. request_fails"
       and str_value = "\<lambda>v. ''errors''" and response = example_response
       and post_request = "\<lambda>url payload. request_fails" and ALLOWED_LABELS = example_labels
       and label = "''documentation''" and comment = "''Thank you!''"]
  from query f have a:
    "snd (get_pull_request_details example_settings (\<lambda>query vars. request_fails) example_get_diff
          (\<lambda>v. ''errors'') 42) = Inr (error_response ''Connection refused'')"
    by simp
  from rest g p f m show ?thesis
    using a by simp
qed

section \<open>The snapshot returned by \<^verbatim>\<open>get_pull_request_details\<close>\<close>

lemma filtered_commits_filter:
  "filtered_commits nodes = Inr kept \<Longrightarrow>
     kept = filter (\<lambda>node. is_main_merge node \<noteq> Inr True) nodes
     \<and> (\<forall>node \<in> set nodes. \<exists>merge. is_main_merge node = Inr merge)"
proof (induction nodes arbitrary: kept)
  case Nil
  then show ?case by simp
next
  case (Cons node rest)
  from Cons.prems obtain merge kept' where
    m: "is_main_merge node = Inr merge" and
    r: "filtered_commits rest = Inr kept'" and
    k: "kept = (if \<not> merge then node # kept' else kept')"
    by (auto simp: and_then_eq_Inr)
  from Cons.IH [OF r] m k show ?case by auto
qed

lemma commit_nodes_set_diff:
  "set_diff pr v = Inr pr' \<Longrightarrow> commit_nodes pr' = commit_nodes pr"
  by (cases pr) (auto simp: commit_nodes_def)

lemma commit_nodes_set_commit_nodes:
  assumes "set_commit_nodes pr (JArr kept) = Inr pr'"
  shows "commit_nodes pr' = kept"
proof (cases pr)
  case (JObj kvs)
  with assms obtain commits where
    g: "getitem (JObj kvs) ''commits'' = Inr commits" and
    r: "(case commits of
           JObj cs \<Rightarrow> Inr (JObj (setitem kvs ''commits'' (JObj (setitem cs ''nodes'' (JArr kept)))))
         | _ \<Rightarrow> Inl TypeError) = Inr pr'"
    by (auto simp: and_then_eq_Inr)
  from r obtain cs where
    "pr' = JObj (setitem kvs ''commits'' (JObj (setitem cs ''nodes'' (JArr kept))))"
    by (cases commits) auto
  then show ?thesis by (simp add: commit_nodes_def)
qed (use assms in simp_all)

lemma main_merges_removed_nodes:
  assumes "main_merges_removed pr = Inr pr'"
  shows "commit_nodes pr' = filter (\<lambda>node. is_main_merge node \<noteq> Inr True) (commit_nodes pr)
         \<and> (\<forall>node \<in> set (commit_nodes pr). \<exists>merge. is_main_merge node = Inr merge)"
proof -
  from assms obtain commits original_commits where
    c: "get pr ''commits'' (JObj []) = Inr commits" and
    n: "get commits ''nodes'' (JObj []) = Inr original_commits" and
    rest: "(if truthy original_commits then
              (case original_commits of
                 JArr nodes \<Rightarrow>
                   and_then (filtered_commits nodes) (\<lambda>kept. set_commit_nodes pr (JArr kept))
               | _ \<Rightarrow> Inl TypeError)
            else Inr pr) = Inr pr'"
    unfolding main_merges_removed_def by (auto simp: and_then_eq_Inr)
  show ?thesis
  proof (cases "truthy original_commits")
    case False
    with rest have same: "pr' = pr" by simp
    from False have "commit_nodes pr = []"
      using c n by (cases original_commits) (auto simp: commit_nodes_def)
    with same show ?thesis by simp
  next
    case True
    with rest obtain nodes kept where
      arr: "original_commits = JArr nodes" and
      f: "filtered_commits nodes = Inr kept" and
      s: "set_commit_nodes pr (JArr kept) = Inr pr'"
      by (cases original_commits) (auto simp: and_then_eq_Inr)
    from c n arr have before: "commit_nodes pr = nodes"
      by (simp add: commit_nodes_def)
    from s have after: "commit_nodes pr' = kept"
      by (rule commit_nodes_set_commit_nodes)
    from filtered_commits_filter [OF f] before after show ?thesis by simp
  qed
qed

lemma get_pull_request_details_success:
  assumes "snd (get_pull_request_details st run_graphql_query get_diff str_value pr_number) =
             Inr (success result)"
  shows "\<exists>response pr pr1 diff pr2.
           run_graphql_query pull_request_query (variables st pr_number) = Inr response
         \<and> pullRequest response = Inr pr
         \<and> main_merges_removed pr = Inr pr1
         \<and> get_diff (pull_url st pr_number) = Inr diff
         \<and> set_diff pr1 (JStr (take 10000 diff)) = Inr pr2
         \<and> result = [(''status'', JStr ''success''), (''pull_request'', pr2)]"
proof -
  from assms have f: "fetch_details st run_graphql_query get_diff str_value pr_number =
                        Inr (success result)"
    by (simp add: get_pull_request_details_def except_RequestException_success)
  then obtain response found where
    r: "run_graphql_query pull_request_query (variables st pr_number) = Inr response" and
    p: "pull_request_of str_value pr_number response = Inr found" and
    rest: "(case found of
              Inl early \<Rightarrow> Inr early
            | Inr pr \<Rightarrow>
                and_then (get_diff (pull_url st pr_number)) (\<lambda>diff.
                and_then (set_diff pr (JStr (take 10000 diff))) (\<lambda>pr.
                Inr (success [(''status'', JStr ''success''), (''pull_request'', pr)])))) =
           Inr (success result)"
    unfolding fetch_details_def by (auto simp: and_then_eq_Inr)
  show ?thesis
  proof (cases found)
    case (Inl early)
    with p pull_request_of_early obtain message where "early = error_response message"
      by blast
    with rest Inl show ?thesis by simp
  next
    case (Inr pr1)
    with rest obtain diff pr2 where
      d: "get_diff (pull_url st pr_number) = Inr diff" and
      s: "set_diff pr1 (JStr (take 10000 diff)) = Inr pr2" and
      res: "result = [(''status'', JStr ''success''), (''pull_request'', pr2)]"
      by (auto simp: and_then_eq_Inr)
    from p Inr obtain pr where
      pr: "pullRequest response = Inr pr" and m: "main_merges_removed pr = Inr pr1"
      unfolding pull_request_of_def
      by (auto simp: and_then_eq_Inr split: if_splits)
    from r pr m d s res show ?thesis by blast
  qed
qed

lemma example_details:
  "snd (get_pull_request_details example_settings example_graphql example_get_diff (\<lambda>v. ''errors'') 42) =
     Inr (success [(''status'', JStr ''success''), (''pull_request'', example_pull_request)])"
proof -
  have "contains example_response ''errors'' = Inr False"
    by (simp add: example_response_def)
  then show ?thesis
    by (simp add: get_pull_request_details_def fetch_details_def example_graphql_def
          pull_request_of_def example_pullRequest main_merges_removed_def is_main_merge_commit_node
          example_get_diff_def setitem_def example_pull_request_def)
qed

text \<open>
  Claim C8. In every successful result of \<^verbatim>\<open>get_pull_request_details\<close> the \<^verbatim>\<open>"diff"\<close> field of
  the pull request is the first \<open>min 10000 (length diff)\<close> characters of the text that
  \<^verbatim>\<open>get_diff\<close> returned, so at most 10000 characters.
\<close>

theorem diff_is_truncated_to_10000:
  assumes "snd (get_pull_request_details st run_graphql_query get_diff str_value pr_number) =
             Inr (success result)"
  shows "\<exists>diff pr d.
           get_diff (pull_url st pr_number) = Inr diff
         \<and> map_of result ''pull_request'' = Some pr
         \<and> getitem pr ''diff'' = Inr (JStr d)
         \<and> d = take (min 10000 (length diff)) diff
         \<and> length d \<le> 10000"
proof -
  from get_pull_request_details_success [OF assms] obtain pr1 diff pr2 where
    d: "get_diff (pull_url st pr_number) = Inr diff" and
    s: "set_diff pr1 (JStr (take 10000 diff)) = Inr pr2" and
    res: "result = [(''status'', JStr ''success''), (''pull_request'', pr2)]"
    by blast
  from s have "getitem pr2 ''diff'' = Inr (JStr (take 10000 diff))"
    by (cases pr1) auto
  moreover have "take 10000 diff = take (min 10000 (length diff)) diff"
    by (simp add: min_def)
  ultimately show ?thesis using d res by simp
qed

theorem diff_is_truncated_to_10000_witness:
  "snd (get_pull_request_details example_settings example_graphql example_get_diff (\<lambda>v. ''errors'') 42) =
     Inr (success [(''status'', JStr ''success''), (''pull_request'', example_pull_request)])
   \<and> (\<exists>diff pr d.
           example_get_diff (pull_url example_settings 42) = Inr diff
         \<and> map_of [(''status'', JStr ''success''), (''pull_request'', example_pull_request)]
              ''pull_request'' = Some pr
         \<and> getitem pr ''diff'' = Inr (JStr d)
         \<and> d = take (min 10000 (length diff)) diff
         \<and> length d \<le> 10000)"
  using diff_is_truncated_to_10000 [OF example_details] example_details by blast

lemma commits_filtered_by_the_test:
  assumes "snd (get_pull_request_details st run_graphql_query get_diff str_value pr_number) =
             Inr (success result)"
  shows "\<exists>response pr pr'.
           run_graphql_query pull_request_query (variables st pr_number) = Inr response
         \<and> pullRequest response = Inr pr
         \<and> map_of result ''pull_request'' = Some pr'
         \<and> commit_nodes pr' = filter (\<lambda>node. is_main_merge node \<noteq> Inr True) (commit_nodes pr)
         \<and> (\<forall>node \<in> set (commit_nodes pr). \<exists>merge. is_main_merge node = Inr merge)
         \<and> (\<forall>node \<in> set (commit_nodes pr'). is_main_merge node = Inr False)"
proof -
  from get_pull_request_details_success [OF assms] obtain response pr pr1 diff pr2 where
    r: "run_graphql_query pull_request_query (variables st pr_number) = Inr response" and
    p: "pullRequest response = Inr pr" and
    m: "main_merges_removed pr = Inr pr1" and
    s: "set_diff pr1 (JStr (take 10000 diff)) = Inr pr2" and
    res: "result = [(''status'', JStr ''success''), (''pull_request'', pr2)]"
    by blast
  let ?keep = "\<lambda>node. is_main_merge node \<noteq> Inr True"
  from main_merges_removed_nodes [OF m]
  have n1: "commit_nodes pr1 = filter ?keep (commit_nodes pr)"
    and wf: "\<forall>node \<in> set (commit_nodes pr). \<exists>merge. is_main_merge node = Inr merge"
    by blast+
  from commit_nodes_set_diff [OF s] n1
  have nodes: "commit_nodes pr2 = filter ?keep (commit_nodes pr)"
    by (rule trans)
  have clean: "\<forall>node \<in> set (commit_nodes pr2). is_main_merge node = Inr False"
  proof
    fix node
    assume "node \<in> set (commit_nodes pr2)"
    then have "node \<in> set (commit_nodes pr)" and "is_main_merge node \<noteq> Inr True"
      unfolding nodes by simp_all
    with wf show "is_main_merge node = Inr False"
      by (metis (full_types))
  qed
  from res have "map_of result ''pull_request'' = Some pr2"
    by simp
  with r p nodes wf clean show ?thesis
    by blast
qed

lemma is_main_merge_eq_Inr:
  "is_main_merge node = Inr merge \<longleftrightarrow>
     (\<exists>commit message.
        getitem node ''commit'' = Inr commit
      \<and> getitem commit ''message'' = Inr (JStr message)
      \<and> merge = prefix ''Merge branch 'main' into'' message)"
proof
  assume "is_main_merge node = Inr merge"
  then obtain commit m where
    c: "getitem node ''commit'' = Inr commit" and
    g: "getitem commit ''message'' = Inr m" and
    s: "startswith m ''Merge branch 'main' into'' = Inr merge"
    unfolding is_main_merge_def by (auto simp: and_then_eq_Inr)
  from s obtain message where "m = JStr message" and "merge = prefix ''Merge branch 'main' into'' message"
    by (cases m) auto
  with c g show "\<exists>commit message.
        getitem node ''commit'' = Inr commit
      \<and> getitem commit ''message'' = Inr (JStr message)
      \<and> merge = prefix ''Merge branch 'main' into'' message"
    by blast
next
  assume "\<exists>commit message.
        getitem node ''commit'' = Inr commit
      \<and> getitem commit ''message'' = Inr (JStr message)
      \<and> merge = prefix ''Merge branch 'main' into'' message"
  then show "is_main_merge node = Inr merge"
    unfolding is_main_merge_def by auto
qed

lemma example_commit_nodes:
  "commit_nodes example_pull_request = [commit_node ''Add cart schema'', commit_node ''Fix typo'']"
  by (simp add: commit_nodes_def example_pull_request_def)

lemma example_fetched_commit_nodes:
  "pullRequest example_response = Inr pr \<Longrightarrow>
     commit_nodes pr = [commit_node ''Add cart schema'',
                        commit_node ''Merge branch 'main' into cart'',
                        commit_node ''Fix typo'']"
  by (auto simp: example_pullRequest commit_nodes_def)

text \<open>
  Claim C9. In every successful result of \<^verbatim>\<open>get_pull_request_details\<close> the commit list is
  the fetched commit list without the nodes whose \<^verbatim>\<open>node["commit"]["message"]\<close> starts with
  "Merge branch 'main' into", the others in their order. Every fetched node has a commit
  with a message string, and no node of the result has a message that starts so.
\<close>

theorem main_merge_commits_are_filtered_out:
  assumes "snd (get_pull_request_details st run_graphql_query get_diff str_value pr_number) =
             Inr (success result)"
  shows "\<exists>response pr pr'.
           run_graphql_query pull_request_query (variables st pr_number) = Inr response
         \<and> pullRequest response = Inr pr
         \<and> map_of result ''pull_request'' = Some pr'
         \<and> commit_nodes pr' =
             filter (\<lambda>node. \<not> (\<exists>commit message.
                                getitem node ''commit'' = Inr commit
                              \<and> getitem commit ''message'' = Inr (JStr message)
                              \<and> prefix ''Merge branch 'main' into'' message))
               (commit_nodes pr)
         \<and> (\<forall>node \<in> set (commit_nodes pr). \<exists>commit message.
                getitem node ''commit'' = Inr commit
              \<and> getitem commit ''message'' = Inr (JStr message))
         \<and> (\<forall>node \<in> set (commit_nodes pr'). \<exists>commit message.
                getitem node ''commit'' = Inr commit
              \<and> getitem commit ''message'' = Inr (JStr message)
              \<and> \<not> prefix ''Merge branch 'main' into'' message)"
proof -
  let ?merge = "\<lambda>node. \<exists>commit message.
                   getitem node ''commit'' = Inr commit
                 \<and> getitem commit ''message'' = Inr (JStr message)
                 \<and> prefix ''Merge branch 'main' into'' message"
  from commits_filtered_by_the_test [OF assms] obtain response pr pr' where
    r: "run_graphql_query pull_request_query (variables st pr_number) = Inr response" and
    p: "pullRequest response = Inr pr" and
    res: "map_of result ''pull_request'' = Some pr'" and
    nodes: "commit_nodes pr' = filter (\<lambda>node. is_main_merge node \<noteq> Inr True) (commit_nodes pr)" and
    wf: "\<forall>node \<in> set (commit_nodes pr). \<exists>merge. is_main_merge node = Inr merge" and
    clean: "\<forall>node \<in> set (commit_nodes pr'). is_main_merge node = Inr False"
    by blast
  have test: "is_main_merge node = Inr True \<longleftrightarrow> ?merge node" for node
    by (simp add: is_main_merge_eq_Inr)
  have "filter (\<lambda>node. is_main_merge node \<noteq> Inr True) (commit_nodes pr) =
        filter (\<lambda>node. \<not> ?merge node) (commit_nodes pr)"
    by (simp only: test)
  with nodes have nodes': "commit_nodes pr' = filter (\<lambda>node. \<not> ?merge node) (commit_nodes pr)"
    by simp
  have wf': "\<forall>node \<in> set (commit_nodes pr). \<exists>commit message.
                getitem node ''commit'' = Inr commit
              \<and> getitem commit ''message'' = Inr (JStr message)"
  proof
    fix node
    assume "node \<in> set (commit_nodes pr)"
    with wf obtain merge where "is_main_merge node = Inr merge"
      by blast
    then show "\<exists>commit message.
                getitem node ''commit'' = Inr commit
              \<and> getitem commit ''message'' = Inr (JStr message)"
      unfolding is_main_merge_eq_Inr by blast
  qed
  have clean': "\<forall>node \<in> set (commit_nodes pr'). \<exists>commit message.
                getitem node ''commit'' = Inr commit
              \<and> getitem commit ''message'' = Inr (JStr message)
              \<and> \<not> prefix ''Merge branch 'main' into'' message"
  proof
    fix node
    assume "node \<in> set (commit_nodes pr')"
    with clean have "is_main_merge node = Inr False"
      by blast
    then show "\<exists>commit message.
                getitem node ''commit'' = Inr commit
              \<and> getitem commit ''message'' = Inr (JStr message)
              \<and> \<not> prefix ''Merge branch 'main' into'' message"
      unfolding is_main_merge_eq_Inr by blast
  qed
  from r p res nodes' wf' clean' show ?thesis
    by blast
qed

theorem main_merge_commits_are_filtered_out_witness:
  "snd (get_pull_request_details example_settings example_graphql example_get_diff (\<lambda>v. ''errors'') 42) =
     Inr (success [(''status'', JStr ''success''), (''pull_request'', example_pull_request)])
   \<and> [commit_node ''Add cart schema'', commit_node ''Fix typo''] =
       filter (\<lambda>node. \<not> (\<exists>commit message.
                          getitem node ''commit'' = Inr commit
                        \<and> getitem commit ''message'' = Inr (JStr message)
                        \<and> prefix ''Merge branch 'main' into'' message))
         [commit_node ''Add cart schema'',
          commit_node ''Merge branch 'main' into cart'',
          commit_node ''Fix typo'']"
proof -
  from main_merge_commits_are_filtered_out [OF example_details] obtain response pr pr' where
    r: "example_graphql pull_request_query (variables example_settings 42) = Inr response" and
    p: "pullRequest response = Inr pr" and
    res: "map_of [(''status'', JStr ''success''), (''pull_request'', example_pull_request)]
            ''pull_request'' = Some pr'" and
    nodes: "commit_nodes pr' =
             filter (\<lambda>node. \<not> (\<exists>commit message.
                                getitem node ''commit'' = Inr commit
                              \<and> getitem commit ''message'' = Inr (JStr message)
                              \<and> prefix ''Merge branch 'main' into'' message))
               (commit_nodes pr)"
    by blast
  from r have "response = example_response"
    by (simp add: example_graphql_def)
  with p have before: "commit_nodes pr = [commit_node ''Add cart schema'',
                        commit_node ''Merge branch 'main' into cart'',
                        commit_node ''Fix typo'']"
    by (simp add: example_fetched_commit_nodes)
  from res have "pr' = example_pull_request"
    by simp
  then have after: "commit_nodes pr' = [commit_node ''Add cart schema'', commit_node ''Fix typo'']"
    by (simp add: example_commit_nodes)
  from nodes before after example_details show ?thesis
    by simp
qed

section \<open>Braces in the guideline texts\<close>






lemma emit_Nil [simp]: "emit [] r = r"
  by (cases r) (auto simp: emit_def map_sum_def split: sum.splits)

lemma emit_emit [simp]: "emit a (emit b r) = emit (a @ b) r"
  by (cases r) (auto simp: emit_def map_sum_def split: sum.splits)


lemma emit_Inl [simp]: "emit a (Some (Inl e)) = Some (Inl e)"
  by (simp add: emit_def)





lemma succeeds_emit [simp]: "succeeds (emit a r) = succeeds r"
  by (cases r) (auto simp: succeeds_def emit_def map_sum_def split: sum.splits)

lemma succeeds_Inr [simp]: "succeeds (Some (Inr out))"
  by (simp add: succeeds_def)











end
